theory Spec2Isabelle
  imports Main
begin

section \<open>The command line of the Vim emulation (src/cmd_line/commandLine.ts)\<close>

text \<open>
  The class \<open>CommandLine\<close> keeps the history of the commands that were run, dispatches a
  command text to the parser and then to the native execution or to Neovim, and drives the
  quick-pick prompt. Its collaborators (parser, Neovim, status bar, logger, the quick-pick
  host) are not part of the file: they are parameters of the model, and every call made to
  one of them is recorded, in order, in a list of events.

  JavaScript strings are modelled as \<open>string\<close>. A value that may be \<open>undefined\<close> is an
  \<open>option\<close>. A rejected promise (an exception leaving an \<open>async\<close> method) is an \<open>exn\<close>
  returned to the caller.
\<close>

subsection \<open>Errors\<close>

text \<open>
  \<open>ErrorCode\<close> and \<open>VimError\<close> come from \<open>../error\<close>. Only the code \<open>E492\<close> is
  named by the command line, every other code is \<open>E_other n\<close>. A \<open>VimError\<close> carries its
  code and the text that \<open>e.toString()\<close> yields; any other thrown value carries the text
  of its string conversion.
\<close>

datatype ErrorCode = E492 | E_other nat

datatype exn = VimError ErrorCode string | Unclassified string

subsection \<open>Collaborators and the record of their calls\<close>

text \<open>\<open>ModeName\<close> is a numeric enumeration of \<open>../mode/mode\<close>.\<close>

type_synonym ModeName = nat

datatype event =
    Parse string
  | Execute
  | NvimRun string
  | StatusBarSet string ModeName bool bool
  | LoggerError string
  | LoggerDebug string
  | ShowQuickPick "string list"

text \<open>
  The command that the parser returns: \<open>cmd.command\<close> may be missing, and otherwise has
  the flag \<open>neovimCapable\<close>; \<open>cmd.execute\<close> acts on the world outside and either completes
  or throws.
\<close>

datatype CommandNode = CommandNode (neovimCapable: bool)

datatype 'w Cmd =
  Cmd (cmd_command: "CommandNode option") (cmd_execute: "'w \<Rightarrow> exn option \<times> 'w")

text \<open>
  The world outside, of an arbitrary type \<open>'w\<close>, is threaded through every call, so that a
  collaborator may answer differently each time it is called. \<open>enableNeovim\<close> is
  \<open>configuration.enableNeovim\<close>; \<open>currentMode\<close> and \<open>isRecordingMacro\<close> read
  \<open>vimState\<close>; \<open>activeTextEditor\<close> tells whether \<open>vscode.window.activeTextEditor\<close> is
  defined; \<open>showQuickPick\<close> yields the entry the user chose, or nothing.
\<close>

record 'w Collaborators =
  enableNeovim :: bool
  parser_parse :: "string \<Rightarrow> 'w \<Rightarrow> (exn + 'w Cmd) \<times> 'w"
  nvim_run :: "string \<Rightarrow> 'w \<Rightarrow> (exn + string) \<times> 'w"
  StatusBar_Set :: "string \<Rightarrow> ModeName \<Rightarrow> bool \<Rightarrow> bool \<Rightarrow> 'w \<Rightarrow> exn option \<times> 'w"
  currentMode :: "'w \<Rightarrow> ModeName"
  isRecordingMacro :: "'w \<Rightarrow> bool"
  activeTextEditor :: "'w \<Rightarrow> bool"
  showQuickPick :: "string list \<Rightarrow> 'w \<Rightarrow> string option \<times> 'w"

subsection \<open>The two history stores\<close>

text \<open>
  Modelled from the spec: the class \<open>CommandLineHistory\<close> of \<open>../history/historyFile\<close>
  is not among the sources. Following section 4.1 of the specification, \<open>add\<close> appends
  unconditionally and \<open>get\<close> returns the whole sequence, oldest first.
\<close>

definition CommandLineHistory_add :: "string list \<Rightarrow> string \<Rightarrow> string list" where
  "CommandLineHistory_add h t = h @ [t]"

text \<open>
  Modelled from the spec: \<open>get\<close> of the same class, which is not among the sources,
  returns the full ordered sequence (section 4.1).
\<close>

definition CommandLineHistory_get :: "string list \<Rightarrow> string list" where
  "CommandLineHistory_get h = h"

text \<open>
  A \<open>vscode.Memento\<close> is a key-value store: \<open>get\<close> with a default, and \<open>update\<close>.
  The persisted history is the list stored under \<open>VIM_HISTORY_KEY\<close>.
\<close>

type_synonym Memento = "string \<rightharpoonup> string list"

definition Memento_get :: "Memento \<Rightarrow> string \<Rightarrow> string list \<Rightarrow> string list" where
  "Memento_get m k d = (case m k of None \<Rightarrow> d | Some v \<Rightarrow> v)"

definition Memento_update :: "Memento \<Rightarrow> string \<Rightarrow> string list \<Rightarrow> Memento" where
  "Memento_update m k v = m(k \<mapsto> v)"

definition VIM_HISTORY_KEY :: string where
  "VIM_HISTORY_KEY = ''VIM_HISTORY_KEY''"

subsection \<open>The state of the command line\<close>

record CommandLine =
  history :: "string list"
  memo :: "Memento option"
  commandLineHistoryIndex :: nat

definition setMemo :: "Memento \<Rightarrow> CommandLine \<Rightarrow> CommandLine" where
  "setMemo m this = this\<lparr>memo := Some m\<rparr>"

text \<open>The constructor: an empty history, no memento, index 0.\<close>

definition new_CommandLine :: CommandLine where
  "new_CommandLine = \<lparr>history = [], memo = None, commandLineHistoryIndex = 0\<rparr>"

text \<open>The command line, the world outside and the calls made so far.\<close>

record 'w machine =
  this :: CommandLine
  world :: 'w
  events :: "event list"

subsection \<open>Calls to the collaborators\<close>

definition call_parse ::
  "'w Collaborators \<Rightarrow> string \<Rightarrow> 'w machine \<Rightarrow> (exn + 'w Cmd) \<times> 'w machine" where
  "call_parse env command m =
     (case parser_parse env command (world m) of
        (r, w) \<Rightarrow> (r, m\<lparr>world := w, events := events m @ [Parse command]\<rparr>))"

definition call_nvim_run ::
  "'w Collaborators \<Rightarrow> string \<Rightarrow> 'w machine \<Rightarrow> (exn + string) \<times> 'w machine" where
  "call_nvim_run env command m =
     (case nvim_run env command (world m) of
        (r, w) \<Rightarrow> (r, m\<lparr>world := w, events := events m @ [NvimRun command]\<rparr>))"

definition call_execute :: "'w Cmd \<Rightarrow> 'w machine \<Rightarrow> exn option \<times> 'w machine" where
  "call_execute cmd m =
     (case cmd_execute cmd (world m) of
        (r, w) \<Rightarrow> (r, m\<lparr>world := w, events := events m @ [Execute]\<rparr>))"

text \<open>
  \<open>StatusBar.Set(text, vimState.currentMode, vimState.isRecordingMacro, true)\<close>: the
  mode and the recording flag are read when the call is made.
\<close>

definition call_StatusBar_Set ::
  "'w Collaborators \<Rightarrow> string \<Rightarrow> 'w machine \<Rightarrow> exn option \<times> 'w machine" where
  "call_StatusBar_Set env t m =
     (let mode = currentMode env (world m); rec = isRecordingMacro env (world m) in
      case StatusBar_Set env t mode rec True (world m) of
        (r, w) \<Rightarrow> (r, m\<lparr>world := w, events := events m @ [StatusBarSet t mode rec True]\<rparr>))"

definition logger_error :: "string \<Rightarrow> 'w machine \<Rightarrow> 'w machine" where
  "logger_error t m = m\<lparr>events := events m @ [LoggerError t]\<rparr>"

definition logger_debug :: "string \<Rightarrow> 'w machine \<Rightarrow> 'w machine" where
  "logger_debug t m = m\<lparr>events := events m @ [LoggerDebug t]\<rparr>"

subsection \<open>Run\<close>

text \<open>Lines 64 to 66: one leading colon is removed (the text is not empty there).\<close>

definition strip_colon :: "string \<Rightarrow> string" where
  "strip_colon command = (if command \<noteq> [] \<and> hd command = CHR '':'' then tl command else command)"

text \<open>Lines 73 and 74.\<close>

definition record_history :: "string \<Rightarrow> CommandLine \<Rightarrow> CommandLine" where
  "record_history command c =
     (let h = CommandLineHistory_add (history c) command in
      c\<lparr>history := h, commandLineHistoryIndex := length (CommandLineHistory_get h)\<rparr>)"

text \<open>
  The body of \<open>try\<close>, lines 77 to 85. The result is the exception that leaves the block,
  if any.
\<close>

definition try_block ::
  "'w Collaborators \<Rightarrow> string \<Rightarrow> 'w machine \<Rightarrow> exn option \<times> 'w machine" where
  "try_block env command m =
     (case call_parse env command m of
        (Inl e, m1) \<Rightarrow> (Some e, m1)
      | (Inr cmd, m1) \<Rightarrow>
          (let useNeovim = (enableNeovim env \<and>
                 (case cmd_command cmd of None \<Rightarrow> False | Some c \<Rightarrow> neovimCapable c)) in
           if useNeovim then
             (case call_nvim_run env command m1 of
                (Inl e, m2) \<Rightarrow> (Some e, m2)
              | (Inr statusBarText, m2) \<Rightarrow> call_StatusBar_Set env statusBarText m2)
           else call_execute cmd m1))"

text \<open>
  The handler, lines 86 to 101. The result is the exception that leaves the handler, and
  so \<open>Run\<close>, if any. The text that Neovim returns on line 89 is not used.
\<close>

definition catch_block ::
  "'w Collaborators \<Rightarrow> string \<Rightarrow> exn \<Rightarrow> 'w machine \<Rightarrow> exn option \<times> 'w machine" where
  "catch_block env command e m =
     (case e of
        VimError code str \<Rightarrow>
          if code = E492 \<and> enableNeovim env then
            (case call_nvim_run env command m of
               (Inl e', m1) \<Rightarrow> (Some e', m1)
             | (Inr _, m1) \<Rightarrow> (None, m1))
          else call_StatusBar_Set env (str @ ''. '' @ command) m
      | Unclassified str \<Rightarrow>
          (None, logger_error (''Error executing cmd='' @ command @ ''. err='' @ str @ ''.'') m))"

text \<open>
  \<open>Run\<close>, lines 59 to 102. The text may be absent (\<open>PromptAndRun\<close> passes what the
  prompt resolved to). The result \<open>None\<close> says that \<open>Run\<close> completed, \<open>Some e\<close> that the
  exception \<open>e\<close> reached the caller.
\<close>

definition Run ::
  "'w Collaborators \<Rightarrow> string option \<Rightarrow> 'w machine \<Rightarrow> exn option \<times> 'w machine" where
  "Run env command0 m =
     (case command0 of
        None \<Rightarrow> (None, m)
      | Some c \<Rightarrow>
          if c = [] then (None, m)
          else
            (let command = strip_colon c in
             if command = ''help'' then call_StatusBar_Set env '':help Not supported.'' m
             else
               (let m1 = m\<lparr>this := record_history command (this m)\<rparr> in
                case try_block env command m1 of
                  (None, m2) \<Rightarrow> (None, m2)
                | (Some e, m2) \<Rightarrow> catch_block env command e m2)))"

subsection \<open>ShowHistory\<close>

definition call_showQuickPick ::
  "'w Collaborators \<Rightarrow> string list \<Rightarrow> 'w machine \<Rightarrow> string option \<times> 'w machine" where
  "call_showQuickPick env entries m =
     (case showQuickPick env entries (world m) of
        (r, w) \<Rightarrow> (r, m\<lparr>world := w, events := events m @ [ShowQuickPick entries]\<rparr>))"

text \<open>
  \<open>ShowHistory\<close>, lines 188 to 208. Without an active editor the result is the empty
  string; a dismissed list gives \<open>undefined\<close>, here \<open>None\<close>.
\<close>

definition ShowHistory ::
  "'w Collaborators \<Rightarrow> string \<Rightarrow> 'w machine \<Rightarrow> string option \<times> 'w machine" where
  "ShowHistory env initialText m =
     (if \<not> activeTextEditor env (world m) then
        (Some [], logger_debug ''No active document.'' m)
      else
        (let c = this m;
             m1 = m\<lparr>this := c\<lparr>history := CommandLineHistory_add (history c) initialText\<rparr>\<rparr>
         in call_showQuickPick env (rev (CommandLineHistory_get (history (this m1)))) m1))"

subsection \<open>The prompt\<close>

datatype CommandItemType = Input | History

text \<open>The arguments of the constructor of \<open>CommandItem\<close>, in its order.\<close>

datatype CommandItem =
  CommandItem (item_type: CommandItemType) (label: string) (description: "string option")

text \<open>The quick pick, \<open>input\<close> in the source; \<open>disposed\<close> counts the calls of \<open>input.dispose()\<close>.\<close>

record QuickPick =
  placeholder :: string
  items :: "CommandItem list"
  visible :: bool
  disposed :: nat

text \<open>
  What the host reports, and the three subscriptions that \<open>promptForCommand\<close> registers
  and pushes to \<open>disposables\<close>.
\<close>

datatype QuickPickEvent =
    DidChangeValue "string option"
  | DidChangeSelection "CommandItem list"
  | DidHide

datatype Subscription = OnDidChangeValue | OnDidChangeSelection | OnDidHide

text \<open>
  One invocation of the prompt: the command line, the widget, the promise (\<open>None\<close> while
  it is pending, \<open>Some r\<close> once it is resolved with \<open>r\<close>), the subscriptions pushed to
  \<open>disposables\<close>, and the calls of \<open>dispose\<close> made on them, in order.
\<close>

record PromptState =
  self :: CommandLine
  qp_input :: QuickPick
  promise :: "string option option"
  disposables :: "Subscription list"
  disposals :: "Subscription list"

text \<open>A promise is settled once: a later \<open>resolve\<close> has no effect.\<close>

definition resolve :: "string option \<Rightarrow> PromptState \<Rightarrow> PromptState" where
  "resolve v s = (if promise s = None then s\<lparr>promise := Some v\<rparr> else s)"

definition input_hide :: "PromptState \<Rightarrow> PromptState" where
  "input_hide s = s\<lparr>qp_input := (qp_input s)\<lparr>visible := False\<rparr>\<rparr>"

definition input_dispose :: "PromptState \<Rightarrow> PromptState" where
  "input_dispose s = s\<lparr>qp_input := (qp_input s)\<lparr>disposed := Suc (disposed (qp_input s))\<rparr>\<rparr>"

definition head_is_input :: "CommandItem list \<Rightarrow> bool" where
  "head_is_input its = (case its of [] \<Rightarrow> False | i # _ \<Rightarrow> item_type i = Input)"

text \<open>Lines 123 to 136. \<open>!value\<close> holds of \<open>undefined\<close> and of the empty string.\<close>

definition updateQuickPick :: "string option \<Rightarrow> QuickPick \<Rightarrow> QuickPick" where
  "updateQuickPick val inp =
     (case val of
        None \<Rightarrow> (if head_is_input (items inp) then inp\<lparr>items := drop 1 (items inp)\<rparr> else inp)
      | Some v \<Rightarrow>
          if v = [] then
            (if head_is_input (items inp) then inp\<lparr>items := drop 1 (items inp)\<rparr> else inp)
          else if head_is_input (items inp) then
            inp\<lparr>items := [CommandItem Input v (Some ''(input)'')] @ drop 1 (items inp)\<rparr>
          else inp\<lparr>items := [CommandItem Input v (Some ''(input)'')] @ items inp\<rparr>)"

definition startsWith_space :: "string \<Rightarrow> bool" where
  "startsWith_space l = (case l of [] \<Rightarrow> False | ch # _ \<Rightarrow> ch = CHR '' '')"

text \<open>Lines 151 to 155: the typed text is put in front of the persisted history.\<close>

definition record_input :: "string \<Rightarrow> CommandLine \<Rightarrow> CommandLine" where
  "record_input l c =
     (case memo c of
        None \<Rightarrow> c
      | Some mm \<Rightarrow>
          if \<not> startsWith_space l then
            (let currentHistory = l # Memento_get mm VIM_HISTORY_KEY []
             in c\<lparr>memo := Some (Memento_update mm VIM_HISTORY_KEY currentHistory)\<rparr>)
          else c)"

text \<open>
  Lines 140 to 157. With an empty selection \<open>items[0]\<close> is \<open>undefined\<close> and reading its
  \<open>type\<close> throws inside the handler: nothing is resolved and nothing is changed.
\<close>

definition onDidChangeSelection :: "CommandItem list \<Rightarrow> PromptState \<Rightarrow> PromptState" where
  "onDidChangeSelection its s =
     (case its of
        [] \<Rightarrow> s
      | item # _ \<Rightarrow>
          (case item_type item of
             History \<Rightarrow> input_hide (resolve (Some (label item)) s)
           | Input \<Rightarrow>
               (let s1 = input_hide (resolve (Some (label item)) s)
                in s1\<lparr>self := record_input (label item) (self s1)\<rparr>)))"

text \<open>Lines 158 to 161.\<close>

definition onDidHide :: "PromptState \<Rightarrow> PromptState" where
  "onDidHide s = input_dispose (resolve None s)"

text \<open>The host fires an event: the handler subscribed to it runs.\<close>

definition fire :: "QuickPickEvent \<Rightarrow> PromptState \<Rightarrow> PromptState" where
  "fire ev s =
     (case ev of
        DidChangeValue v \<Rightarrow> s\<lparr>qp_input := updateQuickPick v (qp_input s)\<rparr>
      | DidChangeSelection its \<Rightarrow> onDidChangeSelection its s
      | DidHide \<Rightarrow> onDidHide s)"

text \<open>
  The index of a history item is written in decimal in its description, as the template
  literal does.
\<close>

definition digit :: "nat \<Rightarrow> char" where
  "digit d = ''0123456789'' ! d"

function decimal :: "nat \<Rightarrow> string" where
  "decimal n = (case n div 10 of 0 \<Rightarrow> [digit n] | Suc q \<Rightarrow> decimal (Suc q) @ [digit (n mod 10)])"
  by pat_completeness auto
termination
  by (relation "measure (\<lambda>n. n)") auto

text \<open>Lines 164 to 171.\<close>

definition historyItems :: "CommandLine \<Rightarrow> CommandItem list" where
  "historyItems c =
     (case memo c of
        None \<Rightarrow> []
      | Some mm \<Rightarrow>
          map (\<lambda>(index, cmd).
                 CommandItem History cmd (Some (''(history item '' @ decimal index @ '')'')))
              (enumerate 0 (Memento_get mm VIM_HISTORY_KEY [])))"

text \<open>
  The body of the promise, lines 119 to 172: the widget is created with the typed item when
  the text is not empty, the three handlers are subscribed, the widget is shown and the
  history items are put behind.
\<close>

definition prompt_open :: "CommandLine \<Rightarrow> string \<Rightarrow> PromptState" where
  "prompt_open c seed =
     (let input0 = \<lparr>placeholder = ''Vim command Line'',
                     items = (if seed \<noteq> [] then [CommandItem Input seed (Some ''(input'')] else []),
                     visible = False, disposed = 0\<rparr>;
          input1 = input0\<lparr>visible := True\<rparr>
      in \<lparr>self = c,
          qp_input = input1\<lparr>items := items input1 @ historyItems c\<rparr>,
          promise = None,
          disposables = [OnDidChangeValue, OnDidChangeSelection, OnDidHide],
          disposals = []\<rparr>)"

text \<open>
  The events of the host reach the handlers one after the other while the promise is
  pending. Once it is resolved the \<open>await\<close> goes on into \<open>finally\<close>, which disposes of the
  subscriptions, so that no handler runs for a later event.
\<close>

fun run_events :: "QuickPickEvent list \<Rightarrow> PromptState \<Rightarrow> PromptState" where
  "run_events [] s = s"
| "run_events (ev # evs) s = (if promise s \<noteq> None then s else run_events evs (fire ev s))"

text \<open>Line 175: \<open>disposables.forEach(d => d.dispose())\<close>.\<close>

definition dispose_all :: "PromptState \<Rightarrow> PromptState" where
  "dispose_all s = fold (\<lambda>d s'. s'\<lparr>disposals := disposals s' @ [d]\<rparr>) (disposables s) s"

text \<open>
  \<open>promptForCommand\<close>, lines 115 to 177, on the events that the host reports. The result
  is \<open>None\<close> when these never resolve the promise: the method has not returned.
\<close>

definition promptForCommand ::
  "CommandLine \<Rightarrow> string \<Rightarrow> QuickPickEvent list \<Rightarrow> (string option \<times> PromptState) option" where
  "promptForCommand c seed evs =
     (let s = run_events evs (prompt_open c seed) in
      case promise s of
        None \<Rightarrow> None
      | Some r \<Rightarrow> Some (r, dispose_all s))"

text \<open>The events that end the prompt: a selection of at least one item, and hiding.\<close>

fun terminal :: "QuickPickEvent \<Rightarrow> bool" where
  "terminal (DidChangeValue v) = False"
| "terminal (DidChangeSelection its) = (its \<noteq> [])"
| "terminal DidHide = True"

subsection \<open>Notions used to state the properties\<close>

text \<open>
  The status updates and the calls of Neovim among the recorded events.
\<close>

definition is_StatusBarSet :: "event \<Rightarrow> bool" where
  "is_StatusBarSet ev = (case ev of StatusBarSet t mode r b \<Rightarrow> True | _ \<Rightarrow> False)"

definition is_NvimRun :: "event \<Rightarrow> bool" where
  "is_NvimRun ev = (case ev of NvimRun t \<Rightarrow> True | _ \<Rightarrow> False)"

text \<open>
  Whether a text occurs inside another one, in the sense of \<open>String.prototype.includes\<close>
  (\<open>occurs_in p t\<close>):
  \<open>starts_with p t\<close> says that \<open>t\<close> begins with \<open>p\<close>.
\<close>

fun starts_with :: "string \<Rightarrow> string \<Rightarrow> bool" where
  "starts_with [] t = True"
| "starts_with (x # p) [] = False"
| "starts_with (x # p) (y # t) = (x = y \<and> starts_with p t)"

fun occurs_in :: "string \<Rightarrow> string \<Rightarrow> bool" where
  "occurs_in p [] = (p = [])"
| "occurs_in p (y # t) = (starts_with p (y # t) \<or> occurs_in p t)"

text \<open>
  The failure of the parse or of the execution of a command text, if there is one: the
  exception thrown by \<open>parser.parse\<close>, or else by \<open>vimState.nvim.run\<close> when the command
  goes to Neovim, or else by \<open>cmd.execute\<close>. A failure of the status bar is not one of
  these.
\<close>

definition parse_or_execution_failure :: "'w Collaborators \<Rightarrow> string \<Rightarrow> 'w \<Rightarrow> exn option" where
  "parse_or_execution_failure env command w =
     (case parser_parse env command w of
        (Inl e, w1) \<Rightarrow> Some e
      | (Inr cmd, w1) \<Rightarrow>
          if enableNeovim env \<and>
             (case cmd_command cmd of None \<Rightarrow> False | Some c \<Rightarrow> neovimCapable c)
          then (case nvim_run env command w1 of (Inl e, w2) \<Rightarrow> Some e | (Inr t, w2) \<Rightarrow> None)
          else fst (cmd_execute cmd w1))"

text \<open>
  The persisted history as the prompt reads it: the list under \<open>VIM_HISTORY_KEY\<close>, and
  nothing while no memento is set.
\<close>

definition persisted_history :: "CommandLine \<Rightarrow> string list" where
  "persisted_history c =
     (case memo c of None \<Rightarrow> [] | Some mm \<Rightarrow> Memento_get mm VIM_HISTORY_KEY [])"

text \<open>
  Sample collaborators for concrete runs: the parser and Neovim give fixed answers, the
  status bar never throws, and the user picks the first entry of a list that is shown. The
  sample machine is a new command line with no events.
\<close>

definition sample_env :: "(exn + unit Cmd) \<Rightarrow> (exn + string) \<Rightarrow> bool \<Rightarrow> bool \<Rightarrow> unit Collaborators" where
  "sample_env parsed answer neovim editor =
     \<lparr>enableNeovim = neovim,
      parser_parse = (\<lambda>t w. (parsed, w)),
      nvim_run = (\<lambda>t w. (answer, w)),
      StatusBar_Set = (\<lambda>t mode r b w. (None, w)),
      currentMode = (\<lambda>w. 0),
      isRecordingMacro = (\<lambda>w. False),
      activeTextEditor = (\<lambda>w. editor),
      showQuickPick = (\<lambda>entries w. (case entries of [] \<Rightarrow> None | x # xs \<Rightarrow> Some x, w))\<rparr>"

definition machine0 :: "unit machine" where
  "machine0 = \<lparr>this = new_CommandLine, world = (), events = []\<rparr>"

section \<open>Properties of Run\<close>

subsection \<open>Auxiliary facts\<close>

lemma call_parse_snd:
  "this (snd (call_parse env c m)) = this m"
  "events (snd (call_parse env c m)) = events m @ [Parse c]"
  by (simp_all add: call_parse_def split: prod.splits)

lemma call_nvim_run_snd:
  "this (snd (call_nvim_run env c m)) = this m"
  "events (snd (call_nvim_run env c m)) = events m @ [NvimRun c]"
  by (simp_all add: call_nvim_run_def split: prod.splits)

lemma call_execute_snd:
  "this (snd (call_execute cmd m)) = this m"
  "events (snd (call_execute cmd m)) = events m @ [Execute]"
  by (simp_all add: call_execute_def split: prod.splits)

lemma call_StatusBar_Set_snd:
  "this (snd (call_StatusBar_Set env t m)) = this m"
  "events (snd (call_StatusBar_Set env t m)) =
     events m @ [StatusBarSet t (currentMode env (world m)) (isRecordingMacro env (world m)) True]"
  by (simp_all add: call_StatusBar_Set_def Let_def split: prod.splits)

lemma try_block_this: "this (snd (try_block env c m)) = this m"
  unfolding try_block_def Let_def
  by (auto split: prod.splits sum.splits
      simp: call_parse_snd call_nvim_run_snd call_execute_snd call_StatusBar_Set_snd
      dest!: arg_cong [where f = snd])

lemma catch_block_this: "this (snd (catch_block env c e m)) = this m"
  unfolding catch_block_def
  by (auto split: prod.splits sum.splits exn.splits
      simp: call_nvim_run_snd call_StatusBar_Set_snd logger_error_def
      dest!: arg_cong [where f = snd])

lemma try_block_failure:
  assumes "parse_or_execution_failure env c (world m) = Some e"
  shows "\<exists>m2 evs. try_block env c m = (Some e, m2) \<and> events m2 = events m @ evs
           \<and> filter is_StatusBarSet evs = []"
  using assms
  unfolding parse_or_execution_failure_def try_block_def call_parse_def call_nvim_run_def
    call_execute_def Let_def
  by (auto split: prod.splits sum.splits if_splits simp: is_StatusBarSet_def)

lemma Run_this:
  assumes "c \<noteq> []" and "strip_colon c \<noteq> ''help''"
  shows "this (snd (Run env (Some c) m)) = record_history (strip_colon c) (this m)"
  using assms
  by (auto simp: Run_def Let_def try_block_this catch_block_this split: prod.splits option.splits
      dest!: arg_cong [where f = snd])

subsection \<open>The unknown command and the fallback\<close>

text \<open>
  Claim C1. When the parse or the execution of the command text fails with a \<open>VimError\<close>
  of code \<open>E492\<close> and \<open>enableNeovim\<close> is set, the handler of \<open>Run\<close> calls Neovim once
  with the same text and does nothing else: the events of \<open>Run\<close> are those of the \<open>try\<close>
  block followed by this one call, and no status update is among them. The text that
  Neovim returns is dropped, it does not reach the status bar (on lines 81 and 82, where
  the parsed command goes to Neovim, it does).
\<close>

theorem Run_unknown_command_not_reported:
  assumes "c \<noteq> []" and "strip_colon c \<noteq> ''help''"
    and "parse_or_execution_failure env (strip_colon c) (world m) = Some (VimError E492 str)"
    and "enableNeovim env"
  shows "\<exists>m2 evs. try_block env (strip_colon c) (m\<lparr>this := record_history (strip_colon c) (this m)\<rparr>)
             = (Some (VimError E492 str), m2)
         \<and> events m2 = events m @ evs
         \<and> events (snd (Run env (Some c) m)) = events m @ evs @ [NvimRun (strip_colon c)]
         \<and> filter is_StatusBarSet (evs @ [NvimRun (strip_colon c)]) = []"
proof -
  let ?m1 = "m\<lparr>this := record_history (strip_colon c) (this m)\<rparr>"
  have "parse_or_execution_failure env (strip_colon c) (world ?m1) = Some (VimError E492 str)"
    using assms(3) by simp
  from try_block_failure [OF this]
  obtain m2 evs where t: "try_block env (strip_colon c) ?m1 = (Some (VimError E492 str), m2)"
    and ev: "events m2 = events m @ evs" and nost: "filter is_StatusBarSet evs = []"
    by auto
  have "Run env (Some c) m = catch_block env (strip_colon c) (VimError E492 str) m2"
    using assms(1,2) t by (simp add: Run_def Let_def)
  then have "events (snd (Run env (Some c) m)) = events m2 @ [NvimRun (strip_colon c)]"
    using assms(4)
    by (auto simp: catch_block_def call_nvim_run_def split: prod.splits sum.splits)
  with t ev nost show ?thesis by (auto simp: is_StatusBarSet_def)
qed

theorem Run_unknown_command_not_reported_witness:
  "''foo'' \<noteq> [] \<and> strip_colon ''foo'' \<noteq> ''help''
   \<and> parse_or_execution_failure
        (sample_env (Inl (VimError E492 ''E492: Not an editor command'')) (Inr ''fallback done'') True True)
        (strip_colon ''foo'') (world machine0) = Some (VimError E492 ''E492: Not an editor command'')
   \<and> enableNeovim (sample_env (Inl (VimError E492 ''E492: Not an editor command'')) (Inr ''fallback done'') True True)
   \<and> Run (sample_env (Inl (VimError E492 ''E492: Not an editor command'')) (Inr ''fallback done'') True True)
        (Some ''foo'') machine0
      = (None, \<lparr>this = \<lparr>history = [''foo''], memo = None, commandLineHistoryIndex = 1\<rparr>,
                world = (), events = [Parse ''foo'', NvimRun ''foo'']\<rparr>)"
  using Run_unknown_command_not_reported [of "''foo''"
      "sample_env (Inl (VimError E492 ''E492: Not an editor command'')) (Inr ''fallback done'') True True"
      machine0 "''E492: Not an editor command''"]
  by (simp add: Run_def strip_colon_def parse_or_execution_failure_def sample_env_def machine0_def
      new_CommandLine_def try_block_def catch_block_def call_parse_def call_nvim_run_def
      record_history_def CommandLineHistory_add_def CommandLineHistory_get_def Let_def)

subsection \<open>What is appended to the history\<close>

text \<open>
  Claim C2, amended. \<open>Run\<close> appends nothing when the text is absent or empty, or when
  the command text (the input without one leading colon) is \<open>help\<close>; it appends the command
  text when this is neither empty nor \<open>help\<close>. \<open>ShowHistory\<close> appends its seed text,
  empty or not, exactly when a text editor is active.
\<close>

theorem history_appended:
  "history (this (snd (Run env None m))) = history (this m)
   \<and> history (this (snd (Run env (Some []) m))) = history (this m)
   \<and> (strip_colon c = ''help'' \<longrightarrow> history (this (snd (Run env (Some c) m))) = history (this m))
   \<and> (strip_colon c \<noteq> [] \<and> strip_colon c \<noteq> ''help'' \<longrightarrow>
        history (this (snd (Run env (Some c) m))) = history (this m) @ [strip_colon c])
   \<and> history (this (snd (ShowHistory env seed m)))
       = (if activeTextEditor env (world m) then history (this m) @ [seed] else history (this m))"
proof -
  have "history (this (snd (Run env (Some c) m))) = history (this m)" if "strip_colon c = ''help''"
    using that by (auto simp: Run_def Let_def call_StatusBar_Set_snd)
  moreover have "history (this (snd (Run env (Some c) m))) = history (this m) @ [strip_colon c]"
    if "strip_colon c \<noteq> []" and "strip_colon c \<noteq> ''help''"
  proof -
    from that(1) have "c \<noteq> []" by (auto simp: strip_colon_def)
    from Run_this [OF this that(2), of env m] show ?thesis
      by (simp add: record_history_def CommandLineHistory_add_def Let_def)
  qed
  moreover have "history (this (snd (ShowHistory env seed m)))
       = (if activeTextEditor env (world m) then history (this m) @ [seed] else history (this m))"
    by (simp add: ShowHistory_def call_showQuickPick_def logger_debug_def Let_def
        CommandLineHistory_add_def split: prod.splits)
  ultimately show ?thesis by (simp add: Run_def)
qed

theorem history_appended_witness:
  "strip_colon '':wq'' \<noteq> [] \<and> strip_colon '':wq'' \<noteq> ''help''
   \<and> history (this (snd (Run (sample_env (Inl (VimError E492 ''E492'')) (Inr ''ok'') False True)
        (Some '':wq'') machine0))) = [''wq'']
   \<and> strip_colon '':help'' = ''help''
   \<and> history (this (snd (Run (sample_env (Inl (VimError E492 ''E492'')) (Inr ''ok'') False True)
        (Some '':help'') machine0))) = []"
  using history_appended [of "sample_env (Inl (VimError E492 ''E492'')) (Inr ''ok'') False True"
      machine0 "'':wq''"]
    history_appended [of "sample_env (Inl (VimError E492 ''E492'')) (Inr ''ok'') False True"
      machine0 "'':help''"]
  by (simp add: strip_colon_def machine0_def new_CommandLine_def)

theorem history_appended_counterexample:
  "''help'' \<noteq> []
   \<and> history (this (snd (Run (sample_env (Inl (VimError E492 ''E492'')) (Inr ''ok'') False True)
        (Some ''help'') machine0))) = history (this machine0)
   \<and> [] \<in> set (history (this (snd (ShowHistory
        (sample_env (Inl (VimError E492 ''E492'')) (Inr ''ok'') False True) [] machine0))))"
  by (simp add: Run_def strip_colon_def call_StatusBar_Set_def
      ShowHistory_def call_showQuickPick_def sample_env_def machine0_def
      new_CommandLine_def CommandLineHistory_add_def CommandLineHistory_get_def Let_def)

subsection \<open>Failures and the caller of Run\<close>

text \<open>
  Claim C3, amended. For a text that reaches the parser (not empty, and not \<open>help\<close> once
  a leading colon is removed): a failure that leaves the \<open>try\<close> block of \<open>Run\<close>, whoever threw it
  (parser, execution, Neovim or status bar), is caught. When it is not a \<open>VimError\<close> it is
  logged once, nothing else is done (no status update follows) and \<open>Run\<close> completes; when
  the block completes, so does \<open>Run\<close>. An exception reaches the caller of \<open>Run\<close> only if
  the handler itself fails on a caught \<open>VimError\<close>: Neovim throws in the fallback call, or
  the status bar throws when the error is reported.
\<close>

theorem Run_catches_failures_of_try:
  assumes "c \<noteq> []" and "strip_colon c \<noteq> ''help''"
    and "try_block env (strip_colon c) (m\<lparr>this := record_history (strip_colon c) (this m)\<rparr>) = (x, m2)"
  shows "(x = None \<longrightarrow> Run env (Some c) m = (None, m2))
       \<and> (\<forall>str. x = Some (Unclassified str) \<longrightarrow>
            Run env (Some c) m =
              (None, m2\<lparr>events := events m2 @
                 [LoggerError (''Error executing cmd='' @ strip_colon c @ ''. err='' @ str @ ''.'')]\<rparr>))
       \<and> (\<forall>e m'. Run env (Some c) m = (Some e, m') \<longrightarrow>
            (\<exists>code str. x = Some (VimError code str) \<and>
               (if code = E492 \<and> enableNeovim env
                then fst (nvim_run env (strip_colon c) (world m2)) = Inl e
                else fst (StatusBar_Set env (str @ ''. '' @ strip_colon c) (currentMode env (world m2))
                            (isRecordingMacro env (world m2)) True (world m2)) = Some e)))"
proof -
  have run: "Run env (Some c) m =
      (case x of None \<Rightarrow> (None, m2) | Some e \<Rightarrow> catch_block env (strip_colon c) e m2)"
    using assms by (simp add: Run_def Let_def)
  show ?thesis
  proof (cases x)
    case None
    with run show ?thesis by simp
  next
    case (Some e)
    show ?thesis
    proof (cases e)
      case (Unclassified str)
      with Some run show ?thesis
        by (simp add: catch_block_def logger_error_def)
    next
      case (VimError code str)
      show ?thesis
      proof (cases "code = E492 \<and> enableNeovim env")
        case True
        with Some VimError run show ?thesis
          by (auto simp: catch_block_def call_nvim_run_def split: prod.splits sum.splits)
      next
        case False
        with Some VimError run show ?thesis
          by (auto simp: catch_block_def call_StatusBar_Set_def Let_def split: prod.splits)
      qed
    qed
  qed
qed

theorem Run_catches_failures_of_try_witness:
  "''foo'' \<noteq> [] \<and> strip_colon ''foo'' \<noteq> ''help''
   \<and> Run (sample_env (Inl (Unclassified ''TypeError'')) (Inr ''unused'') True True) (Some ''foo'') machine0
      = (None, \<lparr>this = \<lparr>history = [''foo''], memo = None, commandLineHistoryIndex = 1\<rparr>,
                world = (),
                events = [Parse ''foo'', LoggerError ''Error executing cmd=foo. err=TypeError.'']\<rparr>)"
proof -
  let ?env = "sample_env (Inl (Unclassified ''TypeError'')) (Inr ''unused'') True True"
  let ?m2 = "\<lparr>this = \<lparr>history = [''foo''], memo = None, commandLineHistoryIndex = 1\<rparr>,
                world = (), events = [Parse ''foo'']\<rparr>"
  have a: "''foo'' \<noteq> []" and b: "strip_colon ''foo'' \<noteq> ''help''"
    by (simp_all add: strip_colon_def)
  have t: "try_block ?env (strip_colon ''foo'')
             (machine0\<lparr>this := record_history (strip_colon ''foo'') (this machine0)\<rparr>)
           = (Some (Unclassified ''TypeError''), ?m2)"
    by (simp add: strip_colon_def sample_env_def machine0_def new_CommandLine_def try_block_def
        call_parse_def record_history_def CommandLineHistory_add_def CommandLineHistory_get_def Let_def)
  from Run_catches_failures_of_try [OF a b t] a b show ?thesis
    by (simp add: strip_colon_def)
qed

theorem Run_handler_failure_counterexample:
  "fst (Run (sample_env (Inl (VimError E492 ''E492: Not an editor command'')) (Inl (Unclassified ''nvim is gone'')) True True)
          (Some ''foo'') machine0)
   = Some (Unclassified ''nvim is gone'')"
  by (simp add: Run_def strip_colon_def sample_env_def machine0_def
      new_CommandLine_def try_block_def catch_block_def call_parse_def call_nvim_run_def
      record_history_def CommandLineHistory_add_def CommandLineHistory_get_def Let_def)

subsection \<open>The length of the history and the index\<close>

text \<open>
  Claim C4, amended. For every non-empty text whose command text (the input without one
  leading colon) is not \<open>help\<close>, after \<open>Run\<close> the history is longer by exactly one and
  \<open>commandLineHistoryIndex\<close> is the new length, whether \<open>Run\<close> completes or fails.
\<close>

theorem Run_history_length:
  assumes "c \<noteq> []" and "strip_colon c \<noteq> ''help''"
  shows "length (history (this (snd (Run env (Some c) m)))) = length (history (this m)) + 1
       \<and> commandLineHistoryIndex (this (snd (Run env (Some c) m)))
           = length (history (this (snd (Run env (Some c) m))))"
  using assms
  by (simp add: Run_this record_history_def CommandLineHistory_add_def
      CommandLineHistory_get_def Let_def)

theorem Run_history_length_witness:
  "''wq'' \<noteq> [] \<and> strip_colon ''wq'' \<noteq> ''help''
   \<and> length (history (this (snd (Run (sample_env (Inl (VimError E492 ''E492'')) (Inr ''ok'') False True)
        (Some ''wq'') machine0)))) = 1
   \<and> commandLineHistoryIndex (this (snd (Run (sample_env (Inl (VimError E492 ''E492'')) (Inr ''ok'') False True)
        (Some ''wq'') machine0))) = 1"
  using Run_history_length [of "''wq''" "sample_env (Inl (VimError E492 ''E492'')) (Inr ''ok'') False True" machine0]
  by (simp add: strip_colon_def machine0_def new_CommandLine_def)

theorem Run_help_history_counterexample:
  "length (history (this (snd (Run (sample_env (Inl (VimError E492 ''E492'')) (Inr ''ok'') False True)
        (Some ''help'') machine0))))
   \<noteq> length (history (this machine0)) + 1"
  by (simp add: Run_def strip_colon_def call_StatusBar_Set_def sample_env_def machine0_def)

subsection \<open>Domain errors that are reported\<close>

text \<open>
  Claim C5, amended. When the parse or the execution of the command text fails with a
  \<open>VimError\<close> whose code is not \<open>E492\<close>, or with any \<open>VimError\<close> while \<open>enableNeovim\<close>
  is off, the events of \<open>Run\<close> are those of the \<open>try\<close> block followed by one status update.
  Its text is the formatted error, then a full stop and a space, then the command text as
  it was parsed, that is the text given to \<open>Run\<close> without one leading colon (lines 64 to 66
  assign it to \<open>command\<close> before line 92 reads it); for a text that begins with a colon
  this is not the text that was given. This is the only status update of \<open>Run\<close>, and the
  handler does not call Neovim.
\<close>

theorem Run_domain_error_reported:
  assumes "c \<noteq> []" and "strip_colon c \<noteq> ''help''"
    and "parse_or_execution_failure env (strip_colon c) (world m) = Some (VimError code str)"
    and "code \<noteq> E492 \<or> \<not> enableNeovim env"
  shows "\<exists>m2 evs. try_block env (strip_colon c) (m\<lparr>this := record_history (strip_colon c) (this m)\<rparr>)
             = (Some (VimError code str), m2)
         \<and> events m2 = events m @ evs
         \<and> events (snd (Run env (Some c) m)) =
             events m2 @ [StatusBarSet (str @ ''. '' @ strip_colon c) (currentMode env (world m2))
                            (isRecordingMacro env (world m2)) True]
         \<and> filter is_StatusBarSet
               (evs @ [StatusBarSet (str @ ''. '' @ strip_colon c) (currentMode env (world m2))
                         (isRecordingMacro env (world m2)) True])
             = [StatusBarSet (str @ ''. '' @ strip_colon c) (currentMode env (world m2))
                  (isRecordingMacro env (world m2)) True]
         \<and> filter is_NvimRun
               [StatusBarSet (str @ ''. '' @ strip_colon c) (currentMode env (world m2))
                  (isRecordingMacro env (world m2)) True] = []"
proof -
  let ?m1 = "m\<lparr>this := record_history (strip_colon c) (this m)\<rparr>"
  have "parse_or_execution_failure env (strip_colon c) (world ?m1) = Some (VimError code str)"
    using assms(3) by simp
  from try_block_failure [OF this]
  obtain m2 evs where t: "try_block env (strip_colon c) ?m1 = (Some (VimError code str), m2)"
    and ev: "events m2 = events m @ evs" and nost: "filter is_StatusBarSet evs = []"
    by auto
  have "Run env (Some c) m = catch_block env (strip_colon c) (VimError code str) m2"
    using assms(1,2) t by (simp add: Run_def Let_def)
  also have "\<dots> = call_StatusBar_Set env (str @ ''. '' @ strip_colon c) m2"
    using assms(4) by (auto simp: catch_block_def)
  finally have "events (snd (Run env (Some c) m)) =
      events m2 @ [StatusBarSet (str @ ''. '' @ strip_colon c) (currentMode env (world m2))
                            (isRecordingMacro env (world m2)) True]"
    by (simp add: call_StatusBar_Set_snd)
  with t ev nost show ?thesis by (auto simp: is_StatusBarSet_def is_NvimRun_def)
qed

theorem Run_domain_error_reported_witness:
  "'':foo'' \<noteq> [] \<and> strip_colon '':foo'' \<noteq> ''help''
   \<and> parse_or_execution_failure
        (sample_env (Inl (VimError (E_other 488) ''E488: Trailing characters'')) (Inr ''unused'') True True)
        (strip_colon '':foo'') (world machine0) = Some (VimError (E_other 488) ''E488: Trailing characters'')
   \<and> E_other 488 \<noteq> E492
   \<and> events (snd (Run (sample_env (Inl (VimError (E_other 488) ''E488: Trailing characters'')) (Inr ''unused'') True True)
        (Some '':foo'') machine0))
      = [Parse ''foo'', StatusBarSet ''E488: Trailing characters. foo'' 0 False True]"
  using Run_domain_error_reported [of "'':foo''"
      "sample_env (Inl (VimError (E_other 488) ''E488: Trailing characters'')) (Inr ''unused'') True True"
      machine0 "E_other 488" "''E488: Trailing characters''"]
  by (simp add: Run_def strip_colon_def parse_or_execution_failure_def sample_env_def machine0_def
      new_CommandLine_def try_block_def catch_block_def call_parse_def call_StatusBar_Set_def
      record_history_def CommandLineHistory_add_def CommandLineHistory_get_def Let_def)

text \<open>
  For the text \<open>:foo\<close> the status update ends in \<open>foo\<close>: the text that was given does not
  occur in it.
\<close>

theorem Run_domain_error_text_counterexample:
  "events (snd (Run (sample_env (Inl (VimError (E_other 488) ''E488: Trailing characters'')) (Inr ''unused'') True True)
        (Some '':foo'') machine0))
     = [Parse ''foo'', StatusBarSet ''E488: Trailing characters. foo'' 0 False True]
   \<and> ''E488: Trailing characters. foo'' \<noteq> ''E488: Trailing characters'' @ ''. '' @ '':foo''
   \<and> \<not> occurs_in '':foo'' ''E488: Trailing characters. foo''"
  by (simp add: Run_def strip_colon_def sample_env_def machine0_def
      new_CommandLine_def try_block_def catch_block_def call_parse_def call_StatusBar_Set_def
      record_history_def CommandLineHistory_add_def CommandLineHistory_get_def Let_def)

subsection \<open>The help command\<close>

text \<open>
  Claim C6. For the texts \<open>help\<close> and \<open>:help\<close>, \<open>Run\<close> is one call of the status bar
  with the text \<open>:help Not supported.\<close>: this is its only event (the parser is not
  called), and the command line, with its history and its index, is unchanged.
\<close>

theorem Run_help:
  assumes "c = ''help'' \<or> c = '':help''"
  shows "Run env (Some c) m = call_StatusBar_Set env '':help Not supported.'' m
       \<and> this (snd (Run env (Some c) m)) = this m
       \<and> events (snd (Run env (Some c) m)) =
           events m @ [StatusBarSet '':help Not supported.'' (currentMode env (world m))
                         (isRecordingMacro env (world m)) True]"
  using assms by (auto simp: Run_def strip_colon_def call_StatusBar_Set_snd)

theorem Run_help_witness:
  "events (snd (Run (sample_env (Inl (Unclassified ''never'')) (Inr ''never'') True True)
                    (Some '':help'') machine0))
     = [StatusBarSet '':help Not supported.'' 0 False True]
   \<and> this (snd (Run (sample_env (Inl (Unclassified ''never'')) (Inr ''never'') True True)
                    (Some '':help'') machine0)) = new_CommandLine"
  using Run_help [of "'':help''" "sample_env (Inl (Unclassified ''never'')) (Inr ''never'') True True" machine0]
  by (simp add: sample_env_def machine0_def call_StatusBar_Set_def)

section \<open>Properties of ShowHistory\<close>

text \<open>
  Claim C9, amended. With an active text editor, \<open>ShowHistory\<close> appends the seed text to
  the history, shows the history reversed (the most recent entry first) and returns what
  the list returns: the chosen entry, or \<open>undefined\<close> when the list is dismissed. Without an
  active text editor it appends and shows nothing, logs a message and returns the empty
  string. The memento is never changed.
\<close>

theorem ShowHistory_result:
  "(activeTextEditor env (world m) \<longrightarrow>
      history (this (snd (ShowHistory env seed m))) = history (this m) @ [seed]
      \<and> events (snd (ShowHistory env seed m))
          = events m @ [ShowQuickPick (rev (history (this m) @ [seed]))]
      \<and> fst (ShowHistory env seed m)
          = fst (showQuickPick env (rev (history (this m) @ [seed])) (world m)))
   \<and> (\<not> activeTextEditor env (world m) \<longrightarrow>
        fst (ShowHistory env seed m) = Some []
        \<and> this (snd (ShowHistory env seed m)) = this m
        \<and> events (snd (ShowHistory env seed m)) = events m @ [LoggerDebug ''No active document.''])
   \<and> memo (this (snd (ShowHistory env seed m))) = memo (this m)"
  by (simp add: ShowHistory_def call_showQuickPick_def logger_debug_def Let_def
      CommandLineHistory_add_def CommandLineHistory_get_def split: prod.splits)

theorem ShowHistory_result_witness:
  "activeTextEditor (sample_env (Inl (VimError E492 ''E492'')) (Inr ''ok'') False True)
     (world (machine0\<lparr>this := new_CommandLine\<lparr>history := [''w'']\<rparr>\<rparr>))
   \<and> ShowHistory (sample_env (Inl (VimError E492 ''E492'')) (Inr ''ok'') False True) ''q''
        (machine0\<lparr>this := new_CommandLine\<lparr>history := [''w'']\<rparr>\<rparr>)
      = (Some ''q'',
         \<lparr>this = \<lparr>history = [''w'', ''q''], memo = None, commandLineHistoryIndex = 0\<rparr>,
          world = (), events = [ShowQuickPick [''q'', ''w'']]\<rparr>)"
  using ShowHistory_result [of "sample_env (Inl (VimError E492 ''E492'')) (Inr ''ok'') False True"
      "machine0\<lparr>this := new_CommandLine\<lparr>history := [''w'']\<rparr>\<rparr>" "''q''"]
  by (simp add: ShowHistory_def call_showQuickPick_def sample_env_def machine0_def
      new_CommandLine_def CommandLineHistory_add_def CommandLineHistory_get_def Let_def)

theorem ShowHistory_no_editor_counterexample:
  "history (this (snd (ShowHistory
        (sample_env (Inl (VimError E492 ''E492'')) (Inr ''ok'') False False) ''x'' machine0)))
     \<noteq> history (this machine0) @ [''x'']
   \<and> fst (ShowHistory
        (sample_env (Inl (VimError E492 ''E492'')) (Inr ''ok'') False False) ''x'' machine0)
     \<noteq> None"
  by (simp add: ShowHistory_def logger_debug_def sample_env_def machine0_def new_CommandLine_def)

section \<open>Properties of the prompt\<close>

subsection \<open>Auxiliary facts\<close>

lemma run_events_settled: "promise s \<noteq> None \<Longrightarrow> run_events evs s = s"
  by (cases evs) simp_all

lemma run_events_append: "run_events (evs @ evs') s = run_events evs' (run_events evs s)"
proof (induction evs arbitrary: s)
  case Nil
  show ?case by simp
next
  case (Cons ev evs)
  show ?case
  proof (cases "promise s = None")
    case True
    with Cons show ?thesis by simp
  next
    case False
    then show ?thesis by (simp add: run_events_settled)
  qed
qed

lemma fire_subscriptions:
  "disposables (fire ev s) = disposables s" "disposals (fire ev s) = disposals s"
  by (auto simp: fire_def onDidChangeSelection_def onDidHide_def resolve_def input_hide_def
      input_dispose_def Let_def split: QuickPickEvent.splits list.splits CommandItemType.splits)

lemma run_events_subscriptions:
  "disposables (run_events evs s) = disposables s \<and> disposals (run_events evs s) = disposals s"
  by (induction evs arbitrary: s) (simp_all add: fire_subscriptions)

lemma fire_not_terminal:
  "\<not> terminal ev \<Longrightarrow> promise (fire ev s) = promise s \<and> self (fire ev s) = self s"
  by (cases ev) (auto simp: fire_def onDidChangeSelection_def)

lemma run_events_not_terminal:
  "\<forall>ev\<in>set evs. \<not> terminal ev \<Longrightarrow>
     promise (run_events evs s) = promise s \<and> self (run_events evs s) = self s"
  by (induction evs arbitrary: s) (simp_all add: fire_not_terminal)

lemma fire_terminal: "terminal ev \<Longrightarrow> promise (fire ev s) \<noteq> None"
  by (cases ev)
    (auto simp: fire_def onDidChangeSelection_def onDidHide_def resolve_def input_hide_def
      input_dispose_def Let_def split: list.splits CommandItemType.splits)

lemma run_events_terminal:
  assumes "terminal ev"
  shows "promise (run_events (evs @ ev # evs') s) \<noteq> None"
proof (cases "promise (run_events evs s) = None")
  case True
  then show ?thesis
    using assms by (simp add: run_events_append run_events_settled fire_terminal)
next
  case False
  then show ?thesis by (simp add: run_events_append run_events_settled)
qed

lemma fold_dispose:
  "disposals (fold (\<lambda>d s'. s'\<lparr>disposals := disposals s' @ [d]\<rparr>) ds s) = disposals s @ ds
   \<and> disposables (fold (\<lambda>d s'. s'\<lparr>disposals := disposals s' @ [d]\<rparr>) ds s) = disposables s
   \<and> self (fold (\<lambda>d s'. s'\<lparr>disposals := disposals s' @ [d]\<rparr>) ds s) = self s"
  by (induction ds arbitrary: s) simp_all

lemma dispose_all_simps:
  "disposals (dispose_all s) = disposals s @ disposables s"
  "disposables (dispose_all s) = disposables s"
  "self (dispose_all s) = self s"
  by (simp_all add: dispose_all_def fold_dispose)

lemma promptForCommand_selection:
  assumes "\<forall>e\<in>set evs. \<not> terminal e"
  shows "promptForCommand c seed (evs @ DidChangeSelection (item # rest) # evs')
         = Some (Some (label item),
                 dispose_all (fire (DidChangeSelection (item # rest)) (run_events evs (prompt_open c seed))))"
proof -
  let ?s = "run_events evs (prompt_open c seed)"
  have pend: "promise ?s = None"
    using run_events_not_terminal [OF assms] by (simp add: prompt_open_def Let_def)
  have "promise (fire (DidChangeSelection (item # rest)) ?s) = Some (Some (label item))"
    using pend
    by (auto simp: fire_def onDidChangeSelection_def resolve_def input_hide_def Let_def
        split: CommandItemType.splits)
  then show ?thesis
    using pend by (simp add: promptForCommand_def run_events_append run_events_settled Let_def)
qed

lemma selection_self:
  "self (fire (DidChangeSelection (item # rest)) s) =
     (case item_type item of History \<Rightarrow> self s | Input \<Rightarrow> record_input (label item) (self s))"
  by (auto simp: fire_def onDidChangeSelection_def resolve_def input_hide_def Let_def
      split: CommandItemType.splits)

lemma Memento_update_neq: "Memento_update mm k (x # Memento_get mm k []) \<noteq> mm"
proof
  assume "Memento_update mm k (x # Memento_get mm k []) = mm"
  then have "Memento_update mm k (x # Memento_get mm k []) k = mm k" by simp
  then show False
    by (cases "mm k") (simp_all add: Memento_update_def Memento_get_def)
qed

lemma updateQuickPick_inputs:
  assumes "\<forall>i\<in>set (items inp). item_type i = Input"
  shows "\<forall>i\<in>set (items (updateQuickPick v inp)). item_type i = Input"
  using assms
  by (auto simp: updateQuickPick_def split: option.splits dest: in_set_dropD)

lemma fire_no_memo:
  assumes "memo (self s) = None" and "\<forall>i\<in>set (items (qp_input s)). item_type i = Input"
  shows "memo (self (fire ev s)) = None \<and> (\<forall>i\<in>set (items (qp_input (fire ev s))). item_type i = Input)"
proof (cases ev)
  case (DidChangeValue v)
  with assms updateQuickPick_inputs [of "qp_input s" v] show ?thesis
    by (simp add: fire_def)
next
  case (DidChangeSelection its)
  with assms show ?thesis
    by (auto simp: fire_def onDidChangeSelection_def resolve_def input_hide_def record_input_def
        Let_def split: list.splits CommandItemType.splits)
next
  case DidHide
  with assms show ?thesis
    by (auto simp: fire_def onDidHide_def resolve_def input_dispose_def)
qed

lemma run_events_no_memo:
  assumes "memo (self s) = None" and "\<forall>i\<in>set (items (qp_input s)). item_type i = Input"
  shows "memo (self (run_events evs s)) = None
       \<and> (\<forall>i\<in>set (items (qp_input (run_events evs s))). item_type i = Input)"
  using assms
proof (induction evs arbitrary: s)
  case Nil
  then show ?case by simp
next
  case (Cons ev evs)
  show ?case
  proof (cases "promise s = None")
    case True
    from fire_no_memo [OF Cons.prems, of ev] Cons.IH [of "fire ev s"] True
    show ?thesis by simp
  next
    case False
    with Cons.prems show ?thesis by simp
  qed
qed

subsection \<open>What a selection writes to the persisted history\<close>

text \<open>
  Claim C7, amended. When a selection ends the prompt, the prompt resolves to the label of
  the selected item, and the memento is changed if and only if the item is the typed one,
  its text does not begin with a space, and a memento has been set. The change then puts
  the text in front of the list stored under \<open>VIM_HISTORY_KEY\<close> and touches no other key.
  The selection of a history item leaves the command line as it was.
\<close>

theorem selection_persists_typed_text:
  assumes "\<forall>e\<in>set evs. \<not> terminal e"
  shows "\<exists>s'. promptForCommand c seed (evs @ DidChangeSelection (item # rest) # evs')
                = Some (Some (label item), s')
           \<and> (memo (self s') \<noteq> memo c \<longleftrightarrow>
                item_type item = Input \<and> \<not> startsWith_space (label item) \<and> memo c \<noteq> None)
           \<and> (memo (self s') \<noteq> memo c \<longrightarrow>
                persisted_history (self s') = label item # persisted_history c
                \<and> (\<forall>mm. memo c = Some mm \<longrightarrow>
                     memo (self s') = Some (mm(VIM_HISTORY_KEY \<mapsto> label item # persisted_history c))))
           \<and> (item_type item = History \<longrightarrow> self s' = c)"
proof -
  let ?s = "run_events evs (prompt_open c seed)"
  let ?s' = "dispose_all (fire (DidChangeSelection (item # rest)) ?s)"
  have sc: "self ?s = c"
    using run_events_not_terminal [OF assms] by (simp add: prompt_open_def Let_def)
  have s': "self ?s' =
      (case item_type item of History \<Rightarrow> c | Input \<Rightarrow> record_input (label item) c)"
    by (simp add: dispose_all_simps selection_self sc split: CommandItemType.splits)
  have "(memo (self ?s') \<noteq> memo c \<longleftrightarrow>
                item_type item = Input \<and> \<not> startsWith_space (label item) \<and> memo c \<noteq> None)"
    by (auto simp: s' record_input_def Let_def Memento_update_neq
        split: CommandItemType.splits option.splits)
  moreover have "memo (self ?s') \<noteq> memo c \<longrightarrow>
                persisted_history (self ?s') = label item # persisted_history c
                \<and> (\<forall>mm. memo c = Some mm \<longrightarrow>
                     memo (self ?s') = Some (mm(VIM_HISTORY_KEY \<mapsto> label item # persisted_history c)))"
    by (auto simp: s' record_input_def Let_def persisted_history_def Memento_update_def
        Memento_get_def split: CommandItemType.splits option.splits)
  moreover have "item_type item = History \<longrightarrow> self ?s' = c"
    by (simp add: s')
  ultimately show ?thesis
    using promptForCommand_selection [OF assms, of c seed item rest evs'] by blast
qed

theorem selection_persists_typed_text_witness:
  "\<not> terminal (DidChangeValue (Some ''xy''))
   \<and> fst (the (promptForCommand (setMemo [VIM_HISTORY_KEY \<mapsto> [''w'']] new_CommandLine) ''x''
        [DidChangeValue (Some ''xy''), DidChangeSelection [CommandItem Input ''xy'' (Some ''(input)'')]]))
      = Some ''xy''
   \<and> persisted_history (self (snd (the (promptForCommand (setMemo [VIM_HISTORY_KEY \<mapsto> [''w'']] new_CommandLine) ''x''
        [DidChangeValue (Some ''xy''), DidChangeSelection [CommandItem Input ''xy'' (Some ''(input)'')]]))))
      = [''xy'', ''w'']"
  using selection_persists_typed_text [of "[DidChangeValue (Some ''xy'')]"
      "setMemo [VIM_HISTORY_KEY \<mapsto> [''w'']] new_CommandLine" "''x''"
      "CommandItem Input ''xy'' (Some ''(input)'')" "[]" "[]"]
  by (simp add: promptForCommand_def prompt_open_def historyItems_def new_CommandLine_def fire_def
      updateQuickPick_def head_is_input_def onDidChangeSelection_def resolve_def input_hide_def
      record_input_def startsWith_space_def setMemo_def persisted_history_def Memento_get_def
      Memento_update_def dispose_all_def Let_def)

theorem selection_without_memo_counterexample:
  "promptForCommand new_CommandLine ''x'' [DidChangeSelection [CommandItem Input ''x'' (Some ''(input'')]] \<noteq> None
   \<and> fst (the (promptForCommand new_CommandLine ''x''
             [DidChangeSelection [CommandItem Input ''x'' (Some ''(input'')]])) = Some ''x''
   \<and> item_type (CommandItem Input ''x'' (Some ''(input'')) = Input
   \<and> \<not> startsWith_space (label (CommandItem Input ''x'' (Some ''(input'')))
   \<and> memo (self (snd (the (promptForCommand new_CommandLine ''x''
             [DidChangeSelection [CommandItem Input ''x'' (Some ''(input'')]])))) = memo new_CommandLine"
  by (simp add: promptForCommand_def prompt_open_def historyItems_def new_CommandLine_def fire_def
      onDidChangeSelection_def resolve_def input_hide_def
      record_input_def startsWith_space_def dispose_all_def Let_def)

subsection \<open>The subscriptions are disposed of once\<close>

text \<open>
  Claim C8. Whenever the host reports an event that ends the prompt (a selection or the
  hiding of the widget), whatever was reported before and after, \<open>promptForCommand\<close>
  returns, and the calls of \<open>dispose\<close> made are exactly the three subscriptions that were
  registered, each of them once.
\<close>

theorem promptForCommand_disposes_once:
  assumes "terminal ev"
  shows "\<exists>r s'. promptForCommand c seed (evs @ ev # evs') = Some (r, s')
           \<and> disposables s' = [OnDidChangeValue, OnDidChangeSelection, OnDidHide]
           \<and> disposals s' = disposables s'
           \<and> (\<forall>d. count_list (disposals s') d = 1)"
proof -
  let ?s = "run_events (evs @ ev # evs') (prompt_open c seed)"
  from run_events_terminal [OF assms]
  obtain r where r: "promise ?s = Some r" by blast
  then have p: "promptForCommand c seed (evs @ ev # evs') = Some (r, dispose_all ?s)"
    by (simp add: promptForCommand_def Let_def)
  have d: "disposables ?s = [OnDidChangeValue, OnDidChangeSelection, OnDidHide]"
    and e: "disposals ?s = []"
    by (simp_all add: run_events_subscriptions prompt_open_def Let_def)
  have "count_list [OnDidChangeValue, OnDidChangeSelection, OnDidHide] d = 1" for d
    by (cases d) simp_all
  with p d e show ?thesis by (simp add: dispose_all_simps)
qed

theorem promptForCommand_disposes_once_witness:
  "terminal DidHide
   \<and> fst (the (promptForCommand new_CommandLine ''x'' [DidChangeValue (Some ''xy''), DidHide])) = None
   \<and> disposals (snd (the (promptForCommand new_CommandLine ''x'' [DidChangeValue (Some ''xy''), DidHide])))
       = [OnDidChangeValue, OnDidChangeSelection, OnDidHide]"
  using promptForCommand_disposes_once [of DidHide new_CommandLine "''x''" "[DidChangeValue (Some ''xy'')]" "[]"]
  by (simp add: promptForCommand_def prompt_open_def historyItems_def new_CommandLine_def fire_def
      updateQuickPick_def head_is_input_def onDidHide_def resolve_def input_dispose_def
      dispose_all_def Let_def)

subsection \<open>The prompt without a memento\<close>

text \<open>
  Claim C10. When no memento is set, the list of the prompt starts as the typed item alone
  (or empty, for an empty seed text) and never holds a history item, whatever the host
  reports; the memento stays unset; and the selection of a typed item resolves the prompt
  to its text.
\<close>

theorem prompt_without_memo:
  assumes "memo c = None"
  shows "items (qp_input (prompt_open c seed))
           = (if seed \<noteq> [] then [CommandItem Input seed (Some ''(input'')] else [])
       \<and> (\<forall>i\<in>set (items (qp_input (run_events evs (prompt_open c seed)))). item_type i \<noteq> History)
       \<and> memo (self (run_events evs (prompt_open c seed))) = None
       \<and> ((\<forall>e\<in>set evs. \<not> terminal e) \<and> item_type item = Input \<longrightarrow>
            (\<exists>s'. promptForCommand c seed (evs @ DidChangeSelection (item # rest) # evs')
                     = Some (Some (label item), s')
                 \<and> memo (self s') = None))"
proof -
  have init: "items (qp_input (prompt_open c seed))
           = (if seed \<noteq> [] then [CommandItem Input seed (Some ''(input'')] else [])"
    and m0: "memo (self (prompt_open c seed)) = None"
    using assms by (simp_all add: prompt_open_def historyItems_def Let_def)
  from init have "\<forall>i\<in>set (items (qp_input (prompt_open c seed))). item_type i = Input"
    by simp
  from run_events_no_memo [OF m0 this, of evs]
  have inv: "memo (self (run_events evs (prompt_open c seed))) = None"
    "\<forall>i\<in>set (items (qp_input (run_events evs (prompt_open c seed)))). item_type i \<noteq> History"
    by auto
  have "\<exists>s'. promptForCommand c seed (evs @ DidChangeSelection (item # rest) # evs')
                     = Some (Some (label item), s') \<and> memo (self s') = None"
    if nt: "\<forall>e\<in>set evs. \<not> terminal e" and "item_type item = Input"
  proof -
    have "self (run_events evs (prompt_open c seed)) = c"
      using run_events_not_terminal [OF nt] by (simp add: prompt_open_def Let_def)
    then show ?thesis
      using promptForCommand_selection [OF nt, of c seed item rest evs'] assms
      by (simp add: dispose_all_simps selection_self record_input_def split: CommandItemType.splits)
  qed
  with init inv show ?thesis by blast
qed

theorem prompt_without_memo_witness:
  "memo new_CommandLine = None
   \<and> \<not> terminal (DidChangeValue (Some ''xy''))
   \<and> item_type (CommandItem Input ''xy'' (Some ''(input)'')) = Input
   \<and> items (qp_input (prompt_open new_CommandLine ''x'')) = [CommandItem Input ''x'' (Some ''(input'')]
   \<and> fst (the (promptForCommand new_CommandLine ''x''
        [DidChangeValue (Some ''xy''), DidChangeSelection [CommandItem Input ''xy'' (Some ''(input)'')]]))
      = Some ''xy''
   \<and> memo (self (snd (the (promptForCommand new_CommandLine ''x''
        [DidChangeValue (Some ''xy''), DidChangeSelection [CommandItem Input ''xy'' (Some ''(input)'')]]))))
      = None"
  using prompt_without_memo [of new_CommandLine "''x''" "[DidChangeValue (Some ''xy'')]"
      "CommandItem Input ''xy'' (Some ''(input)'')" "[]" "[]"]
  by (simp add: promptForCommand_def prompt_open_def historyItems_def new_CommandLine_def fire_def
      updateQuickPick_def head_is_input_def onDidChangeSelection_def resolve_def input_hide_def
      record_input_def dispose_all_def Let_def)

end
